theory Spec2Isabelle
  imports Complex_Main "HOL-Library.Sublist"
begin

section \<open>Tale Forge: AI provider orchestration\<close>

text \<open>
  A shallow embedding of \<^verbatim>\<open>supabase/functions/_shared\<close>: \<^verbatim>\<open>ai-config.ts\<close>,
  \<^verbatim>\<open>telemetry.ts\<close>, \<^verbatim>\<open>ai-client.ts\<close> and \<^verbatim>\<open>health-check.ts\<close>.

  Conventions of the embedding:
  \<^item> a JavaScript \<^verbatim>\<open>number\<close> that counts (tokens, retries, milliseconds of the clock) is an
    \<open>int\<close>; the numbers of the retry policy's delay computation and the derived averages
    are exact rationals (\<open>rat\<close>): floating-point rounding is not modelled;
  \<^item> a string is a \<open>string\<close> (a list of 8-bit characters);
  \<^item> an \<^verbatim>\<open>Error\<close> is the value \<open>Error m\<close> carrying its message; a function that can
    throw returns \<open>error + 'a\<close>, with \<open>Inl\<close> for the thrown error;
  \<^item> the module-level \<^verbatim>\<open>telemetryBuffer\<close>, the clock and the outside effects (sleeping,
    network calls, console lines of the telemetry) live in an explicit \<open>world\<close> record
    that every effectful function takes and returns;
  \<^item> what the outside answers is given by oracles: \<open>clock k\<close> is the value of the
    \<open>k\<close>-th reading of the clock, \<open>net k p r h\<close> the outcome of the \<open>k\<close>-th
    \<^verbatim>\<open>fetch\<close> of a chat completion, \<open>probe k url h\<close> the outcome of the \<open>k\<close>-th
    health request, \<open>env\<close> the process environment.
\<close>

subsection \<open>Strings\<close>

text \<open>\<^verbatim>\<open>s.includes(sub)\<close>: \<open>sub\<close> occurs in \<open>s\<close> as a contiguous block.\<close>

fun includesStr :: "string \<Rightarrow> string \<Rightarrow> bool" where
  "includesStr [] sub = (sub = [])"
| "includesStr (c # cs) sub = (prefix sub (c # cs) \<or> includesStr cs sub)"

text \<open>
  \<^verbatim>\<open>s.toLowerCase()\<close> on the ASCII range: the letters \<^verbatim>\<open>A\<close> to \<^verbatim>\<open>Z\<close> become
  \<^verbatim>\<open>a\<close> to \<^verbatim>\<open>z\<close>, every other character is kept.
\<close>

definition lowerChar :: "char \<Rightarrow> char" where
  "lowerChar c =
     (case map_of (zip ''ABCDEFGHIJKLMNOPQRSTUVWXYZ'' ''abcdefghijklmnopqrstuvwxyz'') c of
        None \<Rightarrow> c
      | Some l \<Rightarrow> l)"

definition toLowerCase :: "string \<Rightarrow> string" where
  "toLowerCase s = map lowerChar s"

text \<open>The decimal digits of a number, as a template literal prints it.\<close>

definition digit :: "nat \<Rightarrow> char" where
  "digit d = ''0123456789'' ! d"

fun digits :: "nat \<Rightarrow> string" where
  "digits n = (if n < 10 then [digit n] else digits (n div 10) @ [digit (n mod 10)])"

definition showInt :: "int \<Rightarrow> string" where
  "showInt i = (if i < 0 then CHR ''-'' # digits (nat (- i)) else digits (nat i))"

subsection \<open>\<^verbatim>\<open>ai-config.ts\<close>: providers and credentials\<close>

datatype error = Error (message: string)

record AIProvider =
  name :: string
  baseUrl :: string
  model :: string
  maxTokens :: int
  temperature :: rat

definition OpenAI :: AIProvider where
  "OpenAI = \<lparr>name = ''OpenAI'', baseUrl = ''https://api.openai.com/v1'', model = ''gpt-4o'',
     maxTokens = 400, temperature = 7 / 10\<rparr>"

definition OVH :: AIProvider where
  "OVH = \<lparr>name = ''OVH'', baseUrl = ''https://oai.endpoints.kepler.ai.cloud.ovh.net/v1'',
     model = ''Meta-Llama-3_3-70B-Instruct'', maxTokens = 400, temperature = 7 / 10\<rparr>"

definition OVH_SDXL :: AIProvider where
  "OVH_SDXL = \<lparr>name = ''OVH_SDXL'',
     baseUrl = ''https://stable-diffusion-xl.endpoints.kepler.ai.cloud.ovh.net/api'',
     model = ''stable-diffusion-xl'', maxTokens = 0, temperature = 0\<rparr>"

text \<open>\<^verbatim>\<open>Deno.env.get\<close>: the process environment, a partial map from names to values.\<close>

type_synonym environment = "string \<rightharpoonup> string"

text \<open>
  \<^verbatim>\<open>!!(key && !key.includes('placeholder'))\<close>: a key that is undefined or the empty
  string is falsy.
\<close>

definition keyUsable :: "string option \<Rightarrow> bool" where
  "keyUsable key =
     (case key of None \<Rightarrow> False | Some k \<Rightarrow> k \<noteq> [] \<and> \<not> includesStr k ''placeholder'')"

definition checkProviderAvailability :: "environment \<Rightarrow> AIProvider \<Rightarrow> bool" where
  "checkProviderAvailability env provider =
     (if name provider = ''OpenAI'' then keyUsable (env ''OPENAI_API_KEY'')
      else if name provider = ''OVH'' then keyUsable (env ''OVH_AI_ENDPOINTS_ACCESS_TOKEN'')
      else if name provider = ''OVH_SDXL'' then keyUsable (env ''OVH_AI_ENDPOINTS_ACCESS_TOKEN'')
      else False)"

text \<open>A template literal prints an undefined value as \<^verbatim>\<open>undefined\<close>.\<close>

definition showKey :: "string option \<Rightarrow> string" where
  "showKey key = (case key of None \<Rightarrow> ''undefined'' | Some k \<Rightarrow> k)"

definition getAuthHeader :: "environment \<Rightarrow> AIProvider \<Rightarrow> error + string" where
  "getAuthHeader env provider =
     (if name provider = ''OpenAI'' then Inr (''Bearer '' @ showKey (env ''OPENAI_API_KEY''))
      else if name provider = ''OVH'' \<or> name provider = ''OVH_SDXL''
        then Inr (''Bearer '' @ showKey (env ''OVH_AI_ENDPOINTS_ACCESS_TOKEN''))
      else Inl (Error (''Unknown provider: '' @ name provider)))"

subsection \<open>\<^verbatim>\<open>ai-client.ts\<close>: requests and responses\<close>

datatype role = System | User | Assistant

record RetryConfig =
  maxRetries :: int
  baseDelayMs :: rat
  maxDelayMs :: rat
  backoffMultiplier :: rat

record AIRequest =
  model :: string
  messages :: "(role \<times> string) list"
  max_tokens :: int
  temperature :: rat

record AIResponse =
  choices :: "string list"
  usage :: "int option"

definition DEFAULT_RETRY_CONFIG :: RetryConfig where
  "DEFAULT_RETRY_CONFIG =
     \<lparr>maxRetries = 2, baseDelayMs = 1000, maxDelayMs = 8000, backoffMultiplier = 2\<rparr>"

definition isRetryableError :: "error \<Rightarrow> bool" where
  "isRetryableError err =
     (let msg = toLowerCase (message err) in
      if includesStr msg ''429'' \<or> includesStr msg ''rate limit'' then True
      else if includesStr msg ''502'' \<or> includesStr msg ''503'' \<or> includesStr msg ''504''
        then True
      else if includesStr msg ''timeout'' \<or> includesStr msg ''network'' then True
      else if includesStr msg ''connection'' then True
      else if includesStr msg ''401'' \<or> includesStr msg ''403''
           \<or> includesStr msg ''unauthorized'' then False
      else if includesStr msg ''400'' \<or> includesStr msg ''bad request'' then False
      else if includesStr msg ''404'' \<or> includesStr msg ''not found'' then False
      else False)"

definition adaptRequestForProvider :: "AIRequest \<Rightarrow> AIProvider \<Rightarrow> AIRequest" where
  "adaptRequestForProvider request provider =
     (let adapted = request in
      if name provider = ''OVH''
        then adapted\<lparr>AIRequest.model := AIProvider.model provider,
                     max_tokens := min (max_tokens request) (maxTokens provider)\<rparr>
      else if name provider = ''OpenAI''
        then adapted\<lparr>AIRequest.model := AIProvider.model provider,
                     max_tokens := min (max_tokens request) (maxTokens provider)\<rparr>
      else adapted\<lparr>AIRequest.model := AIProvider.model provider, max_tokens := maxTokens provider\<rparr>)"

subsection \<open>The world outside the functions\<close>

datatype status = Success | Failure | Fallback | Retry

text \<open>
  What a timer hands to \<^verbatim>\<open>log\<close> (\<^verbatim>\<open>Omit<TelemetryEvent, 'timestamp' | 'functionName'>\<close>),
  and the event \<^verbatim>\<open>log\<close> stores. The timestamp is kept as the millisecond count whose ISO
  string the source stores and parses back. \<^verbatim>\<open>requestSize\<close> and \<^verbatim>\<open>responseSize\<close> are
  never written and are left out.
\<close>

record Event =
  provider :: string
  status :: status
  responseTimeMs :: int
  tokenUsage :: "int option"
  errorMessage :: "string option"

record TelemetryEvent = Event +
  timestamp :: int
  functionName :: string

datatype action =
    Slept rat
  | Fetched AIProvider AIRequest string
  | Console TelemetryEvent
  | Probed string string
  | HealthLogged string bool int int

text \<open>
  \<open>ticks\<close> counts the readings of the clock, \<open>fetches\<close> the chat-completion calls and
  \<open>probes\<close> the health requests made so far; \<open>trace\<close> lists the outside effects in the
  order they happened: \<open>Slept d\<close> for \<^verbatim>\<open>sleep(d)\<close>, \<open>Fetched p r h\<close> for the
  \<^verbatim>\<open>fetch\<close> of \<^verbatim>\<open>makeHttpRequest\<close>, \<open>Console e\<close> for the console line of a telemetry
  event, \<open>Probed url h\<close> for the \<^verbatim>\<open>fetch\<close> of a health check and
  \<open>HealthLogged\<close> for \<^verbatim>\<open>logProviderHealth\<close>. The other console lines are not
  recorded.
\<close>

record world =
  ticks :: nat
  telemetryBuffer :: "TelemetryEvent list"
  fetches :: nat
  probes :: nat
  trace :: "action list"

type_synonym clock = "nat \<Rightarrow> int"

definition now :: "clock \<Rightarrow> world \<Rightarrow> int \<times> world" where
  "now clock s = (clock (ticks s), s\<lparr>ticks := Suc (ticks s)\<rparr>)"

definition emit :: "action \<Rightarrow> world \<Rightarrow> world" where
  "emit a s = s\<lparr>trace := trace s @ [a]\<rparr>"

text \<open>
  Readings of a trace: its network calls of either kind, its chat-completion calls, and
  its timeline of sleeps and chat-completion calls.
\<close>

fun isNetworkCall :: "action \<Rightarrow> bool" where
  "isNetworkCall (Fetched p r h) = True"
| "isNetworkCall (Probed url h) = True"
| "isNetworkCall a = False"

fun isFetched :: "action \<Rightarrow> bool" where
  "isFetched (Fetched p r h) = True"
| "isFetched a = False"

fun isTimed :: "action \<Rightarrow> bool" where
  "isTimed (Slept d) = True"
| "isTimed (Fetched p r h) = True"
| "isTimed a = False"

definition fetchesOf :: "action list \<Rightarrow> action list" where
  "fetchesOf tr = filter isFetched tr"

definition timeline :: "action list \<Rightarrow> action list" where
  "timeline tr = filter isTimed tr"

text \<open>The world when the process starts: the buffer is the empty array.\<close>

definition initialWorld :: world where
  "initialWorld = \<lparr>ticks = 0, telemetryBuffer = [], fetches = 0, probes = 0, trace = []\<rparr>"

subsection \<open>\<^verbatim>\<open>telemetry.ts\<close>\<close>

definition MAX_BUFFER_SIZE :: nat where
  "MAX_BUFFER_SIZE = 1000"

text \<open>
  \<^verbatim>\<open>AITelemetry.log\<close> of the telemetry object for function \<open>fn\<close>: \<^verbatim>\<open>push\<close>, then one
  \<^verbatim>\<open>shift\<close> when the buffer has grown beyond \<open>MAX_BUFFER_SIZE\<close>, then the console line.
\<close>

definition logEvent :: "clock \<Rightarrow> string \<Rightarrow> Event \<Rightarrow> world \<Rightarrow> world" where
  "logEvent clock fn ev s =
     (let (t, s1) = now clock s;
          telemetryEvent = \<lparr>Event.provider = Event.provider ev, status = status ev,
            responseTimeMs = responseTimeMs ev, tokenUsage = tokenUsage ev,
            errorMessage = errorMessage ev, timestamp = t, functionName = fn\<rparr>;
          pushed = telemetryBuffer s1 @ [telemetryEvent];
          rotated = (if length pushed > MAX_BUFFER_SIZE then tl pushed else pushed)
      in emit (Console telemetryEvent) (s1\<lparr>telemetryBuffer := rotated\<rparr>))"

text \<open>
  A sequence of \<^verbatim>\<open>log\<close> calls, each given by the function name of its telemetry object
  and the event handed in, and the events these calls store when the first of them
  reads the clock for the \<open>t\<close>-th time.
\<close>

definition storedEvent :: "clock \<Rightarrow> nat \<Rightarrow> string \<times> Event \<Rightarrow> TelemetryEvent" where
  "storedEvent clock t call =
     \<lparr>Event.provider = Event.provider (snd call), status = status (snd call),
      responseTimeMs = responseTimeMs (snd call), tokenUsage = tokenUsage (snd call),
      errorMessage = errorMessage (snd call), timestamp = clock t, functionName = fst call\<rparr>"

fun storedEvents :: "clock \<Rightarrow> nat \<Rightarrow> (string \<times> Event) list \<Rightarrow> TelemetryEvent list" where
  "storedEvents clock t [] = []"
| "storedEvents clock t (call # calls) = storedEvent clock t call # storedEvents clock (Suc t) calls"

fun logAll :: "clock \<Rightarrow> (string \<times> Event) list \<Rightarrow> world \<Rightarrow> world" where
  "logAll clock [] s = s"
| "logAll clock (call # calls) s = logAll clock calls (logEvent clock (fst call) (snd call) s)"

text \<open>\<open>telemetry\<close> is the function name of the \<^verbatim>\<open>AITelemetry\<close> object the timer holds.\<close>

record PerformanceTimer =
  startTime :: int
  provider :: string
  telemetry :: string

definition newTimer :: "clock \<Rightarrow> string \<Rightarrow> string \<Rightarrow> world \<Rightarrow> PerformanceTimer \<times> world" where
  "newTimer clock prov fn s =
     (let (t, s1) = now clock s in (\<lparr>startTime = t, provider = prov, telemetry = fn\<rparr>, s1))"

definition success :: "clock \<Rightarrow> PerformanceTimer \<Rightarrow> int option \<Rightarrow> world \<Rightarrow> int \<times> world" where
  "success clock timer tokens s =
     (let (t, s1) = now clock s; responseTime = t - startTime timer
      in (responseTime,
          logEvent clock (telemetry timer)
            \<lparr>Event.provider = PerformanceTimer.provider timer, status = Success,
             responseTimeMs = responseTime, tokenUsage = tokens, errorMessage = None\<rparr> s1))"

definition failure :: "clock \<Rightarrow> PerformanceTimer \<Rightarrow> string \<Rightarrow> world \<Rightarrow> int \<times> world" where
  "failure clock timer err s =
     (let (t, s1) = now clock s; responseTime = t - startTime timer
      in (responseTime,
          logEvent clock (telemetry timer)
            \<lparr>Event.provider = PerformanceTimer.provider timer, status = Failure,
             responseTimeMs = responseTime, tokenUsage = None, errorMessage = Some err\<rparr> s1))"

definition fallback :: "clock \<Rightarrow> PerformanceTimer \<Rightarrow> string \<Rightarrow> world \<Rightarrow> int \<times> world" where
  "fallback clock timer err s =
     (let (t, s1) = now clock s; responseTime = t - startTime timer
      in (responseTime,
          logEvent clock (telemetry timer)
            \<lparr>Event.provider = PerformanceTimer.provider timer, status = Fallback,
             responseTimeMs = responseTime, tokenUsage = None, errorMessage = Some err\<rparr> s1))"

definition retry :: "clock \<Rightarrow> PerformanceTimer \<Rightarrow> int \<Rightarrow> world \<Rightarrow> world" where
  "retry clock timer attempt s =
     (let (t, s1) = now clock s; currentTime = t - startTime timer
      in logEvent clock (telemetry timer)
           \<lparr>Event.provider = PerformanceTimer.provider timer, status = Retry,
            responseTimeMs = currentTime, tokenUsage = None,
            errorMessage = Some (''Retry attempt '' @ showInt attempt)\<rparr> s1)"

definition clearTelemetryBuffer :: "world \<Rightarrow> world" where
  "clearTelemetryBuffer s = s\<lparr>telemetryBuffer := []\<rparr>"

definition getTelemetryBufferSize :: "world \<Rightarrow> nat" where
  "getTelemetryBufferSize s = length (telemetryBuffer s)"

subsection \<open>\<^verbatim>\<open>getTelemetryStats\<close>\<close>

text \<open>
  The optional \<^verbatim>\<open>timeWindow\<close> is \<open>None\<close> when the argument is left out, else a
  number: an integer count of milliseconds or one of the two infinities. The cutoff
  is a number of the same kind.
\<close>

datatype jsNumber = NegInfinity | Num int | Infinity

text \<open>\<^verbatim>\<open>timeWindow ? Date.now() - timeWindow : 0\<close>, where \<open>current\<close> is what
  \<^verbatim>\<open>Date.now()\<close> returns: an absent window and the number 0 are falsy.\<close>

definition cutoffTime :: "int \<Rightarrow> jsNumber option \<Rightarrow> jsNumber" where
  "cutoffTime current timeWindow =
     (case timeWindow of
        None \<Rightarrow> Num 0
      | Some (Num w) \<Rightarrow> (if w \<noteq> 0 then Num (current - w) else Num 0)
      | Some Infinity \<Rightarrow> NegInfinity
      | Some NegInfinity \<Rightarrow> Infinity)"

text \<open>\<^verbatim>\<open>t > c\<close> for a finite \<open>t\<close>.\<close>

definition laterThan :: "int \<Rightarrow> jsNumber \<Rightarrow> bool" where
  "laterThan t c = (case c of NegInfinity \<Rightarrow> True | Num n \<Rightarrow> n < t | Infinity \<Rightarrow> False)"

text \<open>
  The \<^verbatim>\<open>reduce\<close> that groups by provider: an object whose keys are listed by
  \<^verbatim>\<open>Object.entries\<close> in the order they were first inserted, here an association list.
  (Provider names are taken to be ordinary keys: not integer-like, which
  \<^verbatim>\<open>Object.entries\<close> lists first, and not the name of a member of \<^verbatim>\<open>Object.prototype\<close>.)
\<close>

fun addToGroup ::
  "(string \<times> TelemetryEvent list) list \<Rightarrow> TelemetryEvent \<Rightarrow> (string \<times> TelemetryEvent list) list"
where
  "addToGroup [] e = [(Event.provider e, [e])]"
| "addToGroup ((k, es) # acc) e =
     (if k = Event.provider e then (k, es @ [e]) # acc else (k, es) # addToGroup acc e)"

text \<open>\<^verbatim>\<open>Math.round\<close>: the nearest integer, a half rounded up. The average and the
  rate it is applied to are exact quotients here; every group has at least one event, so
  no quotient has the divisor 0.\<close>

definition mathRound :: "rat \<Rightarrow> int" where
  "mathRound x = \<lfloor>x + 1 / 2\<rfloor>"

record ProviderStats =
  provider :: string
  totalRequests :: nat
  successfulRequests :: nat
  failedRequests :: nat
  fallbackRequests :: nat
  retryRequests :: nat
  avgResponseTime :: int
  totalTokens :: int
  successRate :: rat

definition countStatus :: "status \<Rightarrow> TelemetryEvent list \<Rightarrow> nat" where
  "countStatus st events = length (filter (\<lambda>e. status e = st) events)"

definition providerStats :: "string \<times> TelemetryEvent list \<Rightarrow> ProviderStats" where
  "providerStats entry =
     (let prov = fst entry; events = snd entry;
          total = length events;
          successful = countStatus Success events;
          avg = rat_of_int (foldl (\<lambda>sum e. sum + responseTimeMs e) 0 events) / rat_of_nat total;
          tokens = foldl (\<lambda>sum e. sum + (case tokenUsage e of None \<Rightarrow> 0 | Some n \<Rightarrow> n)) 0 events;
          rate = (if total > 0 then rat_of_nat successful / rat_of_nat total * 100 else 0)
      in \<lparr>ProviderStats.provider = prov,
          totalRequests = total,
          successfulRequests = successful,
          failedRequests = countStatus Failure events,
          fallbackRequests = countStatus Fallback events,
          retryRequests = countStatus Retry events,
          avgResponseTime = mathRound avg,
          totalTokens = tokens,
          successRate = rat_of_int (mathRound (rate * 100)) / 100\<rparr>)"

text \<open>
  \<open>getTelemetryStats current timeWindow buffer\<close>: the statistics computed from the
  buffer \<open>buffer\<close> when \<^verbatim>\<open>Date.now()\<close> is \<open>current\<close>.
\<close>

definition relevantEvents :: "int \<Rightarrow> jsNumber option \<Rightarrow> TelemetryEvent list \<Rightarrow> TelemetryEvent list" where
  "relevantEvents current timeWindow buffer =
     filter (\<lambda>event. laterThan (timestamp event) (cutoffTime current timeWindow)) buffer"

definition getTelemetryStats :: "int \<Rightarrow> jsNumber option \<Rightarrow> TelemetryEvent list \<Rightarrow> ProviderStats list" where
  "getTelemetryStats current timeWindow buffer =
     (let providerGroups = foldl addToGroup [] (relevantEvents current timeWindow buffer)
      in map providerStats providerGroups)"

subsection \<open>\<^verbatim>\<open>AIClient\<close>\<close>

text \<open>
  What one \<^verbatim>\<open>fetch\<close> of a chat completion does: it rejects with an error, or it answers
  with a status, and then \<^verbatim>\<open>response.text()\<close> and \<^verbatim>\<open>response.json()\<close> (together with
  the reading of \<^verbatim>\<open>usage\<close>) each give a value or throw.
\<close>

datatype http_outcome =
    Rejected error
  | Responded int "error + string" "error + AIResponse"

type_synonym network = "nat \<Rightarrow> AIProvider \<Rightarrow> AIRequest \<Rightarrow> string \<Rightarrow> http_outcome"

text \<open>The client object: the function name of its telemetry and its retry policy.\<close>

record AIClient =
  clientTelemetry :: string
  retryConfig :: RetryConfig

definition ok :: "int \<Rightarrow> bool" where
  "ok st = (200 \<le> st \<and> st \<le> 299)"

definition sleep :: "rat \<Rightarrow> world \<Rightarrow> world" where
  "sleep ms s = emit (Slept ms) s"

definition makeHttpRequest ::
  "network \<Rightarrow> AIProvider \<Rightarrow> AIRequest \<Rightarrow> string \<Rightarrow> world \<Rightarrow> http_outcome \<times> world" where
  "makeHttpRequest net p request authHeader s =
     (net (fetches s) p request authHeader,
      emit (Fetched p request authHeader) (s\<lparr>fetches := Suc (fetches s)\<rparr>))"

text \<open>The exponential backoff of the retry \<open>attempt\<close> (\<open>attempt > 0\<close>).\<close>

definition backoffDelay :: "RetryConfig \<Rightarrow> int \<Rightarrow> rat" where
  "backoffDelay cfg attempt =
     min (baseDelayMs cfg * backoffMultiplier cfg ^ nat (attempt - 1)) (maxDelayMs cfg)"

text \<open>What the \<^verbatim>\<open>try\<close> block makes of the outcome of its \<^verbatim>\<open>fetch\<close>: the parsed data, or
  the error thrown.\<close>

definition readResponse :: "http_outcome \<Rightarrow> error + AIResponse" where
  "readResponse out =
     (case out of
        Rejected e \<Rightarrow> Inl e
      | Responded st txt js \<Rightarrow>
          (if \<not> ok st then
             (case txt of
                Inl e \<Rightarrow> Inl e
              | Inr errorText \<Rightarrow> Inl (Error (''HTTP '' @ showInt st @ '': '' @ errorText)))
           else js))"

text \<open>
  The \<^verbatim>\<open>for\<close> loop of \<^verbatim>\<open>makeRequest\<close>, from the iteration \<open>attempt\<close> on, with the code
  after the loop as its last branch.
\<close>

function attemptLoop ::
  "clock \<Rightarrow> network \<Rightarrow> AIClient \<Rightarrow> AIProvider \<Rightarrow> AIRequest \<Rightarrow> string \<Rightarrow> PerformanceTimer
    \<Rightarrow> int \<Rightarrow> error option \<Rightarrow> world \<Rightarrow> (error + AIResponse) \<times> world"
where
  "attemptLoop clock net client p request authHeader timer attempt lastError s =
     (if attempt \<le> maxRetries (retryConfig client) then
        (let s1 = (if attempt > 0
                   then sleep (backoffDelay (retryConfig client) attempt) (retry clock timer attempt s)
                   else s);
             (out, s2) = makeHttpRequest net p request authHeader s1
         in case readResponse out of
              Inr data \<Rightarrow> (Inr data, snd (success clock timer (usage data) s2))
            | Inl err \<Rightarrow>
                (if \<not> isRetryableError err \<or> attempt = maxRetries (retryConfig client)
                 then (Inl err, snd (failure clock timer (message err) s2))
                 else attemptLoop clock net client p request authHeader timer
                        (attempt + 1) (Some err) s2))
      else
        (case lastError of
           None \<Rightarrow> (Inl (Error ''Unexpected error in retry logic''),
                     snd (failure clock timer ''Unknown error'' s))
         | Some err \<Rightarrow>
             (Inl err,
              snd (failure clock timer
                     (if message err = [] then ''Unknown error'' else message err) s))))"
  by pat_completeness auto
termination
  by (relation "measure (\<lambda>(clock, net, client, p, request, authHeader, timer, attempt, lastError, s).
        nat (maxRetries (retryConfig client) + 1 - attempt))") auto

declare attemptLoop.simps [simp del]

definition makeRequest ::
  "clock \<Rightarrow> network \<Rightarrow> AIClient \<Rightarrow> AIProvider \<Rightarrow> AIRequest \<Rightarrow> string \<Rightarrow> world
    \<Rightarrow> (error + AIResponse) \<times> world" where
  "makeRequest clock net client p request authHeader s =
     (let (timer, s1) = newTimer clock (name p) (clientTelemetry client) s
      in attemptLoop clock net client p request authHeader timer 0 None s1)"

text \<open>
  \<open>getPrimaryAuthHeader\<close> and \<open>getFallbackAuthHeader\<close> are what the two callbacks do
  when called: return a header or throw. \<open>tryRequest\<close> is the expression
  \<^verbatim>\<open>this.makeRequest(provider, request, getAuthHeader())\<close> of either \<^verbatim>\<open>try\<close> block: the
  callback is called first, and when it throws \<^verbatim>\<open>makeRequest\<close> is not entered.
\<close>

definition tryRequest ::
  "clock \<Rightarrow> network \<Rightarrow> AIClient \<Rightarrow> AIProvider \<Rightarrow> AIRequest \<Rightarrow> error + string \<Rightarrow> world
    \<Rightarrow> (error + AIResponse) \<times> world" where
  "tryRequest clock net client p request getHeader s =
     (case getHeader of
        Inl e \<Rightarrow> (Inl e, s)
      | Inr h \<Rightarrow> makeRequest clock net client p request h s)"

text \<open>The two lines that log the fallback usage: a new timer for the primary, and its
  \<^verbatim>\<open>fallback\<close> with the primary's error message.\<close>

definition logFallbackUsage :: "clock \<Rightarrow> AIClient \<Rightarrow> AIProvider \<Rightarrow> error \<Rightarrow> world \<Rightarrow> world" where
  "logFallbackUsage clock client primaryProvider primaryError s =
     (let (primaryTimer, s1) = newTimer clock (name primaryProvider) (clientTelemetry client) s
      in snd (fallback clock primaryTimer (message primaryError) s1))"

definition bothFailed :: "AIProvider \<Rightarrow> error \<Rightarrow> AIProvider \<Rightarrow> error \<Rightarrow> error" where
  "bothFailed primaryProvider primaryError fallbackProvider fallbackError =
     Error (''Both AI providers failed. Primary ('' @ name primaryProvider @ ''): ''
            @ message primaryError @ ''. '' @ ''Fallback ('' @ name fallbackProvider @ ''): ''
            @ message fallbackError)"

definition makeRequestWithFallback ::
  "clock \<Rightarrow> network \<Rightarrow> AIClient \<Rightarrow> AIProvider \<Rightarrow> AIProvider \<Rightarrow> AIRequest
    \<Rightarrow> error + string \<Rightarrow> error + string \<Rightarrow> world
    \<Rightarrow> (error + AIResponse \<times> AIProvider) \<times> world" where
  "makeRequestWithFallback clock net client primaryProvider fallbackProvider request
      getPrimaryAuthHeader getFallbackAuthHeader s =
     (case tryRequest clock net client primaryProvider request getPrimaryAuthHeader s of
        (Inr response, s1) \<Rightarrow> (Inr (response, primaryProvider), s1)
      | (Inl primaryError, s1) \<Rightarrow>
          (let s2 = logFallbackUsage clock client primaryProvider primaryError s1;
               fallbackRequest = adaptRequestForProvider request fallbackProvider
           in case tryRequest clock net client fallbackProvider fallbackRequest
                     getFallbackAuthHeader s2 of
                (Inr response, s3) \<Rightarrow> (Inr (response, fallbackProvider), s3)
              | (Inl fallbackError, s3) \<Rightarrow>
                  (Inl (bothFailed primaryProvider primaryError fallbackProvider fallbackError),
                   s3)))"

subsection \<open>\<^verbatim>\<open>health-check.ts\<close>\<close>

record HealthCheckResult =
  provider :: string
  isHealthy :: bool
  responseTimeMs :: int
  error :: "string option"
  timestamp :: int

text \<open>
  What the \<^verbatim>\<open>fetch\<close> of a health check does: it answers with a status, it is aborted
  by the timeout, or it rejects with another error.
\<close>

datatype probe_outcome = Status int | Aborted | Failed error

type_synonym prober = "nat \<Rightarrow> string \<Rightarrow> string \<Rightarrow> probe_outcome"

definition timeout :: int where
  "timeout = 5000"

definition logProviderHealth :: "clock \<Rightarrow> string \<Rightarrow> bool \<Rightarrow> int \<Rightarrow> world \<Rightarrow> world" where
  "logProviderHealth clock prov healthy responseTime s =
     (let (t, s1) = now clock s in emit (HealthLogged prov healthy responseTime t) s1)"

definition healthFetch :: "prober \<Rightarrow> string \<Rightarrow> string \<Rightarrow> world \<Rightarrow> (error + bool) \<times> world" where
  "healthFetch probe url authHeader s =
     (let s1 = emit (Probed url authHeader) (s\<lparr>probes := Suc (probes s)\<rparr>)
      in case probe (probes s) url authHeader of
           Status st \<Rightarrow> (Inr (st < 500 \<and> st \<noteq> 401 \<and> st \<noteq> 403), s1)
         | Aborted \<Rightarrow> (Inl (Error (''Health check timeout after '' @ showInt timeout @ ''ms'')), s1)
         | Failed e \<Rightarrow> (Inl e, s1))"

definition performProviderHealthCheck ::
  "environment \<Rightarrow> prober \<Rightarrow> AIProvider \<Rightarrow> world \<Rightarrow> (error + bool) \<times> world" where
  "performProviderHealthCheck env probe p s =
     (if name p = ''OpenAI'' \<or> name p = ''OVH'' then
        (case getAuthHeader env p of
           Inl e \<Rightarrow> (Inl e, s)
         | Inr h \<Rightarrow> healthFetch probe (baseUrl p @ ''/models'') h s)
      else if name p = ''OVH_SDXL'' then
        (case getAuthHeader env p of
           Inl e \<Rightarrow> (Inl e, s)
         | Inr h \<Rightarrow> healthFetch probe (baseUrl p) h s)
      else (Inl (Error (''Unknown provider type: '' @ name p)), s))"

definition checkProvider ::
  "environment \<Rightarrow> clock \<Rightarrow> prober \<Rightarrow> AIProvider \<Rightarrow> world \<Rightarrow> HealthCheckResult \<times> world" where
  "checkProvider env clock probe p s =
     (let (startTime, s1) = now clock s in
      if \<not> checkProviderAvailability env p then
        (let (t, s2) = now clock s1;
             result = \<lparr>HealthCheckResult.provider = name p, isHealthy = False,
               HealthCheckResult.responseTimeMs = 0,
               error = Some ''API key not configured or invalid'',
               HealthCheckResult.timestamp = t\<rparr>
         in (result, logProviderHealth clock (name p) False 0 s2))
      else
        (case performProviderHealthCheck env probe p s1 of
           (Inr healthy, s2) \<Rightarrow>
             (let (finished, s3) = now clock s2; responseTime = finished - startTime;
                  (t, s4) = now clock s3;
                  result = \<lparr>HealthCheckResult.provider = name p, isHealthy = healthy,
                    HealthCheckResult.responseTimeMs = responseTime, error = None,
                    HealthCheckResult.timestamp = t\<rparr>
              in (result, logProviderHealth clock (name p) healthy responseTime s4))
         | (Inl e, s2) \<Rightarrow>
             (let (finished, s3) = now clock s2; responseTime = finished - startTime;
                  (t, s4) = now clock s3;
                  result = \<lparr>HealthCheckResult.provider = name p, isHealthy = False,
                    HealthCheckResult.responseTimeMs = responseTime, error = Some (message e),
                    HealthCheckResult.timestamp = t\<rparr>
              in (result, logProviderHealth clock (name p) False responseTime s4))))"

section \<open>Helper definitions for the statements\<close>

text \<open>
  The event a timer stores when it is used in the world \<open>s\<close>: it reads the clock for
  the elapsed time, and \<^verbatim>\<open>log\<close> reads it again for the timestamp. \<open>logged e s\<close> is
  the world after that.
\<close>

definition timerEvent ::
  "clock \<Rightarrow> PerformanceTimer \<Rightarrow> status \<Rightarrow> int option \<Rightarrow> string option \<Rightarrow> world \<Rightarrow> TelemetryEvent"
where
  "timerEvent clock timer st tokens err s =
     \<lparr>Event.provider = PerformanceTimer.provider timer, status = st,
      Event.responseTimeMs = clock (ticks s) - startTime timer, tokenUsage = tokens,
      errorMessage = err, TelemetryEvent.timestamp = clock (Suc (ticks s)),
      functionName = telemetry timer\<rparr>"

definition logged :: "TelemetryEvent \<Rightarrow> world \<Rightarrow> world" where
  "logged e s =
     s\<lparr>ticks := ticks s + 2,
       telemetryBuffer :=
         (if MAX_BUFFER_SIZE \<le> length (telemetryBuffer s)
          then tl (telemetryBuffer s @ [e]) else telemetryBuffer s @ [e]),
       trace := trace s @ [Console e]\<rparr>"

text \<open>The timeline of the loop's iteration \<open>k\<close>: the sleep of a retry, then the call.\<close>

definition iteration :: "RetryConfig \<Rightarrow> AIProvider \<Rightarrow> AIRequest \<Rightarrow> string \<Rightarrow> int \<Rightarrow> action list" where
  "iteration cfg p r h k = (if 0 < k then [Slept (backoffDelay cfg k)] else []) @ [Fetched p r h]"

section \<open>Example runs\<close>

text \<open>
  A request, two clients (the default retry policy; a policy of three retries whose
  third delay reaches the ceiling), and four networks: one that answers 503 three
  times and then succeeds, one where every call succeeds, one where the primary text
  provider answers 401 and every other provider succeeds, and one where the primary
  answers 401 and every other provider 404.
\<close>

definition exampleRequest :: AIRequest where
  "exampleRequest =
     \<lparr>AIRequest.model = ''gpt-4o'',
      messages = [(System, ''You tell stories for children''), (User, ''Tell me about a dragon'')],
      max_tokens = 1000, AIRequest.temperature = 7 / 10\<rparr>"

definition exampleResponse :: AIResponse where
  "exampleResponse = \<lparr>choices = [''Once upon a time''], usage = Some 42\<rparr>"

definition exampleClient :: AIClient where
  "exampleClient = \<lparr>clientTelemetry = ''generate-story'', retryConfig = DEFAULT_RETRY_CONFIG\<rparr>"

definition patientClient :: AIClient where
  "patientClient =
     \<lparr>clientTelemetry = ''generate-story'',
      retryConfig = \<lparr>maxRetries = 3, baseDelayMs = 1000, maxDelayMs = 8000,
                      backoffMultiplier = 3\<rparr>\<rparr>"

definition flakyNet :: network where
  "flakyNet k p r h =
     (if k < 3 then Responded 503 (Inr ''Service Unavailable'') (Inl (Error ''Unexpected token''))
      else Responded 200 (Inr []) (Inr exampleResponse))"

definition healthyNet :: network where
  "healthyNet k p r h = Responded 200 (Inr []) (Inr exampleResponse)"

definition primaryDownNet :: network where
  "primaryDownNet k p r h =
     (if name p = ''OpenAI''
      then Responded 401 (Inr ''Unauthorized'') (Inl (Error ''Unexpected token''))
      else Responded 200 (Inr []) (Inr exampleResponse))"

definition allDownNet :: network where
  "allDownNet k p r h =
     (if name p = ''OpenAI''
      then Responded 401 (Inr ''Unauthorized'') (Inl (Error ''Unexpected token''))
      else Responded 404 (Inr ''Not Found'') (Inl (Error ''Unexpected token'')))"

text \<open>
  An environment holding the fallback's token only, and a provider whose name
  \<^verbatim>\<open>getAuthHeader\<close> does not know.
\<close>

definition exampleEnv :: environment where
  "exampleEnv = [''OVH_AI_ENDPOINTS_ACCESS_TOKEN'' \<mapsto> ''ovh-1'']"

definition unlistedProvider :: AIProvider where
  "unlistedProvider =
     \<lparr>name = ''Mistral'', baseUrl = ''https://api.mistral.ai/v1'',
      AIProvider.model = ''mistral-small'', maxTokens = 400, AIProvider.temperature = 7 / 10\<rparr>"

section \<open>Strings\<close>

lemma includesStr_sublist: "includesStr s sub = sublist sub s"
  by (induction s) (simp_all add: sublist_Cons_right)

lemma includesStr_iff: "includesStr s sub \<longleftrightarrow> (\<exists>ps ss. s = ps @ sub @ ss)"
  by (simp add: includesStr_sublist sublist_def)

section \<open>Adapting a request to a provider\<close>

text \<open>
  Claim C2, as amended. The adapted request carries the provider's model. Its
  \<^verbatim>\<open>max_tokens\<close> is the smaller of the requested value and the provider's
  \<^verbatim>\<open>maxTokens\<close> when the provider is named \<^verbatim>\<open>OVH\<close> or \<^verbatim>\<open>OpenAI\<close>; for a provider of
  any other name it is the provider's \<^verbatim>\<open>maxTokens\<close>, whatever was requested.
\<close>

theorem adapt_model_and_max_tokens:
  "AIRequest.model (adaptRequestForProvider request p) = AIProvider.model p \<and>
   max_tokens (adaptRequestForProvider request p) =
     (if name p = ''OVH'' \<or> name p = ''OpenAI''
      then min (max_tokens request) (maxTokens p) else maxTokens p)"
  by (simp add: adaptRequestForProvider_def)

text \<open>
  An instance of each branch: the configured fallback \<^verbatim>\<open>OVH\<close> clamps a request for
  1000 tokens to 400 and keeps a request for 100, and the image provider
  \<^verbatim>\<open>OVH_SDXL\<close> takes the default branch.
\<close>

theorem adapt_model_and_max_tokens_witness:
  "max_tokens (adaptRequestForProvider
      \<lparr>AIRequest.model = ''gpt-4o'', messages = [(User, ''Once upon a time'')], max_tokens = 1000,
        AIRequest.temperature = 7 / 10\<rparr> OVH) = 400 \<and>
   max_tokens (adaptRequestForProvider
      \<lparr>AIRequest.model = ''gpt-4o'', messages = [(User, ''Once upon a time'')], max_tokens = 100,
        AIRequest.temperature = 7 / 10\<rparr> OVH) = 100 \<and>
   AIRequest.model (adaptRequestForProvider
      \<lparr>AIRequest.model = ''gpt-4o'', messages = [(User, ''Once upon a time'')], max_tokens = 100,
        AIRequest.temperature = 7 / 10\<rparr> OVH) = ''Meta-Llama-3_3-70B-Instruct'' \<and>
   max_tokens (adaptRequestForProvider
      \<lparr>AIRequest.model = ''gpt-4o'', messages = [(User, ''Once upon a time'')], max_tokens = 100,
        AIRequest.temperature = 7 / 10\<rparr> OVH_SDXL) = 0"
  using
    adapt_model_and_max_tokens [of
      "\<lparr>AIRequest.model = ''gpt-4o'', messages = [(User, ''Once upon a time'')], max_tokens = 1000,
        AIRequest.temperature = 7 / 10\<rparr>" OVH]
    adapt_model_and_max_tokens [of
      "\<lparr>AIRequest.model = ''gpt-4o'', messages = [(User, ''Once upon a time'')], max_tokens = 100,
        AIRequest.temperature = 7 / 10\<rparr>" OVH]
    adapt_model_and_max_tokens [of
      "\<lparr>AIRequest.model = ''gpt-4o'', messages = [(User, ''Once upon a time'')], max_tokens = 100,
        AIRequest.temperature = 7 / 10\<rparr>" OVH_SDXL]
  by (simp add: OVH_def OVH_SDXL_def)

text \<open>
  Claim C2 as stated fails for a provider outside the two named ones: asked for 100
  tokens, the request adapted for a provider with \<^verbatim>\<open>maxTokens\<close> 400 asks for 400, not
  for \<open>min 100 400\<close>.
\<close>

theorem adapt_default_counterexample:
  "max_tokens (adaptRequestForProvider
      \<lparr>AIRequest.model = ''gpt-4o'', messages = [(User, ''Once upon a time'')], max_tokens = 100,
        AIRequest.temperature = 7 / 10\<rparr>
      \<lparr>name = ''Mistral'', baseUrl = ''https://api.mistral.ai/v1'',
        AIProvider.model = ''mistral-small'', maxTokens = 400,
        AIProvider.temperature = 7 / 10\<rparr>)
   \<noteq> min (100::int) 400"
  by (simp add: adaptRequestForProvider_def)

text \<open>
  Claim C10. Adapting a request changes its \<^verbatim>\<open>model\<close> and \<^verbatim>\<open>max_tokens\<close> only: the
  messages and the temperature are those of the input, and putting the two fields
  back gives the input again.
\<close>

theorem adapt_frame:
  "messages (adaptRequestForProvider request p) = messages request \<and>
   AIRequest.temperature (adaptRequestForProvider request p) = AIRequest.temperature request \<and>
   (adaptRequestForProvider request p)
      \<lparr>AIRequest.model := AIRequest.model request, max_tokens := max_tokens request\<rparr> = request"
  by (simp add: adaptRequestForProvider_def)

theorem adapt_frame_witness:
  "messages (adaptRequestForProvider
      \<lparr>AIRequest.model = ''gpt-4o'', messages = [(System, ''You tell stories''), (User, ''Go on'')],
        max_tokens = 1000, AIRequest.temperature = 9 / 10\<rparr> OVH)
     = [(System, ''You tell stories''), (User, ''Go on'')] \<and>
   AIRequest.temperature (adaptRequestForProvider
      \<lparr>AIRequest.model = ''gpt-4o'', messages = [(System, ''You tell stories''), (User, ''Go on'')],
        max_tokens = 1000, AIRequest.temperature = 9 / 10\<rparr> OVH) = 9 / 10"
  using adapt_frame [of
      "\<lparr>AIRequest.model = ''gpt-4o'', messages = [(System, ''You tell stories''), (User, ''Go on'')],
        max_tokens = 1000, AIRequest.temperature = 9 / 10\<rparr>" OVH]
  by simp

section \<open>Classifying an error\<close>

text \<open>
  Claim C6. An error is retryable exactly when its message, in lower case, contains
  one of \<^verbatim>\<open>429\<close>, \<^verbatim>\<open>rate limit\<close>, \<^verbatim>\<open>502\<close>, \<^verbatim>\<open>503\<close>, \<^verbatim>\<open>504\<close>, \<^verbatim>\<open>timeout\<close>,
  \<^verbatim>\<open>network\<close>, \<^verbatim>\<open>connection\<close> as a contiguous block. Every other error is fatal,
  whether it matches one of the client-error signals or nothing at all.
\<close>

theorem isRetryableError_iff:
  "isRetryableError e \<longleftrightarrow>
     (\<exists>sub \<in> {''429'', ''rate limit'', ''502'', ''503'', ''504'', ''timeout'', ''network'',
                 ''connection''}.
        \<exists>ps ss. toLowerCase (message e) = ps @ sub @ ss)"
  unfolding isRetryableError_def Let_def includesStr_iff by auto

text \<open>
  \<^verbatim>\<open>HTTP 429: Rate Limit\<close> is retryable through its lower-case form, and
  \<^verbatim>\<open>HTTP 401: Unauthorized\<close> and \<^verbatim>\<open>Quota exceeded\<close> are fatal.
\<close>

theorem isRetryableError_iff_witness:
  "isRetryableError (Error ''Rate Limit'') \<and>
   \<not> isRetryableError (Error ''HTTP 401: Unauthorized'') \<and>
   \<not> isRetryableError (Error ''Quota exceeded'')"
proof -
  have "toLowerCase (message (Error ''Rate Limit'')) = [] @ ''rate limit'' @ []"
    by (simp add: toLowerCase_def lowerChar_def)
  then have "isRetryableError (Error ''Rate Limit'')"
    using isRetryableError_iff [of "Error ''Rate Limit''"] by blast
  moreover have "\<not> isRetryableError (Error ''HTTP 401: Unauthorized'')"
    by (simp add: isRetryableError_def toLowerCase_def lowerChar_def)
  moreover have "\<not> isRetryableError (Error ''Quota exceeded'')"
    by (simp add: isRetryableError_def toLowerCase_def lowerChar_def)
  ultimately show ?thesis by simp
qed

section \<open>The telemetry buffer\<close>

lemma logEvent_buffer:
  "telemetryBuffer (logEvent clock fn ev s) =
     (if length (telemetryBuffer s) \<ge> MAX_BUFFER_SIZE
      then tl (telemetryBuffer s @ [storedEvent clock (ticks s) (fn, ev)])
      else telemetryBuffer s @ [storedEvent clock (ticks s) (fn, ev)])"
  by (simp add: logEvent_def now_def emit_def storedEvent_def Let_def)

lemma logEvent_ticks: "ticks (logEvent clock fn ev s) = Suc (ticks s)"
  by (simp add: logEvent_def now_def emit_def Let_def)

lemma logEvent_length:
  assumes "length (telemetryBuffer s) \<le> MAX_BUFFER_SIZE"
  shows "length (telemetryBuffer (logEvent clock fn ev s)) \<le> MAX_BUFFER_SIZE"
  using assms by (simp add: logEvent_buffer MAX_BUFFER_SIZE_def)

lemma logAll_buffer:
  "length (telemetryBuffer s) \<le> MAX_BUFFER_SIZE \<Longrightarrow>
   telemetryBuffer (logAll clock calls s) =
     drop (length (telemetryBuffer s) + length calls - MAX_BUFFER_SIZE)
       (telemetryBuffer s @ storedEvents clock (ticks s) calls)"
proof (induction calls arbitrary: s)
  case Nil
  then show ?case by simp
next
  case (Cons call calls)
  let ?b = "telemetryBuffer s"
  let ?e = "storedEvent clock (ticks s) call"
  let ?s' = "logEvent clock (fst call) (snd call) s"
  let ?rest = "storedEvents clock (Suc (ticks s)) calls"
  have len': "length (telemetryBuffer ?s') \<le> MAX_BUFFER_SIZE"
    by (rule logEvent_length [OF Cons.prems])
  have step: "telemetryBuffer (logAll clock (call # calls) s) =
          drop (length (telemetryBuffer ?s') + length calls - MAX_BUFFER_SIZE)
            (telemetryBuffer ?s' @ ?rest)"
    using Cons.IH [OF len'] by (simp add: logEvent_ticks)
  show ?case
  proof (cases "length ?b = MAX_BUFFER_SIZE")
    case True
    then obtain x b' where b: "?b = x # b'"
      by (cases ?b) (simp_all add: MAX_BUFFER_SIZE_def)
    have b': "telemetryBuffer ?s' = b' @ [?e]"
      using True b logEvent_buffer [of clock "fst call" "snd call" s] by simp
    have "length b' + 1 = MAX_BUFFER_SIZE"
      using True b by simp
    then show ?thesis
      unfolding step b' using b by simp
  next
    case False
    with Cons.prems have less: "length ?b < MAX_BUFFER_SIZE" by simp
    then have b': "telemetryBuffer ?s' = ?b @ [?e]"
      using logEvent_buffer [of clock "fst call" "snd call" s] by simp
    show ?thesis
      unfolding step b' by simp
  qed
qed

text \<open>
  Claim C7. A \<^verbatim>\<open>log\<close> on a buffer of at most \<open>MAX_BUFFER_SIZE\<close> events leaves at
  most that many: on a full buffer it drops exactly the oldest event and appends the new
  one, otherwise it only appends. So after any sequence of \<^verbatim>\<open>log\<close> calls the buffer
  holds the newest \<open>MAX_BUFFER_SIZE\<close> of the events that were there or were stored,
  in their order; and \<open>MAX_BUFFER_SIZE + 1\<close> calls on the empty buffer leave all the
  stored events but the first.
\<close>

theorem telemetry_buffer_bounded_fifo:
  assumes "length (telemetryBuffer s) \<le> MAX_BUFFER_SIZE"
  shows "length (telemetryBuffer (logEvent clock fn ev s)) \<le> MAX_BUFFER_SIZE \<and>
         telemetryBuffer (logEvent clock fn ev s) =
           (if length (telemetryBuffer s) = MAX_BUFFER_SIZE
            then tl (telemetryBuffer s) @ [storedEvent clock (ticks s) (fn, ev)]
            else telemetryBuffer s @ [storedEvent clock (ticks s) (fn, ev)]) \<and>
         length (telemetryBuffer (logAll clock calls s)) \<le> MAX_BUFFER_SIZE \<and>
         telemetryBuffer (logAll clock calls s) =
           drop (length (telemetryBuffer s) + length calls - MAX_BUFFER_SIZE)
             (telemetryBuffer s @ storedEvents clock (ticks s) calls) \<and>
         (telemetryBuffer s = [] \<and> length calls = MAX_BUFFER_SIZE + 1 \<longrightarrow>
            telemetryBuffer (logAll clock calls s) = tl (storedEvents clock (ticks s) calls))"
proof -
  have one: "length (telemetryBuffer (logEvent clock fn ev s)) \<le> MAX_BUFFER_SIZE"
    by (rule logEvent_length [OF assms])
  have two: "telemetryBuffer (logEvent clock fn ev s) =
           (if length (telemetryBuffer s) = MAX_BUFFER_SIZE
            then tl (telemetryBuffer s) @ [storedEvent clock (ticks s) (fn, ev)]
            else telemetryBuffer s @ [storedEvent clock (ticks s) (fn, ev)])"
  proof (cases "length (telemetryBuffer s) = MAX_BUFFER_SIZE")
    case True
    then have "telemetryBuffer s \<noteq> []" by (auto simp: MAX_BUFFER_SIZE_def)
    with True show ?thesis by (simp add: logEvent_buffer)
  next
    case False
    with assms show ?thesis by (simp add: logEvent_buffer)
  qed
  have four: "telemetryBuffer (logAll clock calls s) =
           drop (length (telemetryBuffer s) + length calls - MAX_BUFFER_SIZE)
             (telemetryBuffer s @ storedEvents clock (ticks s) calls)"
    by (rule logAll_buffer [OF assms])
  have len: "length (storedEvents clock t calls) = length calls" for t
    by (induction calls arbitrary: t) simp_all
  have three: "length (telemetryBuffer (logAll clock calls s)) \<le> MAX_BUFFER_SIZE"
    unfolding four by (simp add: len)
  have five: "telemetryBuffer (logAll clock calls s) = tl (storedEvents clock (ticks s) calls)"
    if "telemetryBuffer s = []" "length calls = MAX_BUFFER_SIZE + 1"
    unfolding four using that by (simp add: drop_Suc)
  from one two three four five show ?thesis by blast
qed

text \<open>1001 calls on the empty buffer of the starting world.\<close>

theorem telemetry_buffer_bounded_fifo_witness:
  "length (telemetryBuffer initialWorld) \<le> MAX_BUFFER_SIZE \<and>
   telemetryBuffer initialWorld = [] \<and>
   length (replicate 1001 (''create-story'',
      \<lparr>Event.provider = ''OpenAI'', status = Success, responseTimeMs = 12, tokenUsage = Some 7,
       errorMessage = None\<rparr>)) = MAX_BUFFER_SIZE + 1 \<and>
   length (telemetryBuffer (logAll int (replicate 1001 (''create-story'',
      \<lparr>Event.provider = ''OpenAI'', status = Success, responseTimeMs = 12, tokenUsage = Some 7,
       errorMessage = None\<rparr>)) initialWorld)) \<le> MAX_BUFFER_SIZE \<and>
   telemetryBuffer (logAll int (replicate 1001 (''create-story'',
      \<lparr>Event.provider = ''OpenAI'', status = Success, responseTimeMs = 12, tokenUsage = Some 7,
       errorMessage = None\<rparr>)) initialWorld) =
     tl (storedEvents int (ticks initialWorld) (replicate 1001 (''create-story'',
      \<lparr>Event.provider = ''OpenAI'', status = Success, responseTimeMs = 12, tokenUsage = Some 7,
       errorMessage = None\<rparr>)))"
proof -
  have h: "length (telemetryBuffer initialWorld) \<le> MAX_BUFFER_SIZE"
    by (simp add: initialWorld_def)
  have e: "telemetryBuffer initialWorld = []"
    by (simp add: initialWorld_def)
  have n: "length (replicate 1001 (c :: string \<times> Event)) = MAX_BUFFER_SIZE + 1" for c
    by (simp add: MAX_BUFFER_SIZE_def)
  show ?thesis
    using h e n telemetry_buffer_bounded_fifo [OF h, where clock = int
      and calls = "replicate 1001 (''create-story'',
      \<lparr>Event.provider = ''OpenAI'', status = Success, responseTimeMs = 12, tokenUsage = Some 7,
       errorMessage = None\<rparr>)"]
    by blast
qed

section \<open>The health probe of a provider without a usable credential\<close>

text \<open>
  A provider is available exactly when it has one of the three known names and the key
  of that name is set, not empty and free of the word \<^verbatim>\<open>placeholder\<close>.
\<close>

lemma checkProviderAvailability_iff:
  "checkProviderAvailability env p \<longleftrightarrow>
     (\<exists>k. (name p = ''OpenAI'' \<and> env ''OPENAI_API_KEY'' = Some k
           \<or> (name p = ''OVH'' \<or> name p = ''OVH_SDXL'')
               \<and> env ''OVH_AI_ENDPOINTS_ACCESS_TOKEN'' = Some k)
          \<and> k \<noteq> [] \<and> \<not> (\<exists>ps ss. k = ps @ ''placeholder'' @ ss))"
  by (auto simp: checkProviderAvailability_def keyUsable_def includesStr_iff split: option.splits)

lemma unavailable_probe_world:
  assumes "\<not> checkProviderAvailability env p"
  shows "checkProvider env clock probe p s =
          (\<lparr>HealthCheckResult.provider = name p, isHealthy = False,
             HealthCheckResult.responseTimeMs = 0,
             error = Some ''API key not configured or invalid'',
             HealthCheckResult.timestamp = clock (Suc (ticks s))\<rparr>,
           s\<lparr>ticks := ticks s + 3,
              trace := trace s @ [HealthLogged (name p) False 0 (clock (ticks s + 2))]\<rparr>)"
  using assms
  by (simp add: checkProvider_def now_def logProviderHealth_def emit_def Let_def)

text \<open>
  Claim C9, as amended. When \<^verbatim>\<open>checkProviderAvailability\<close> is false for a provider (its
  key is absent, empty or contains \<^verbatim>\<open>placeholder\<close>, or its name is not a known one),
  \<^verbatim>\<open>checkProvider\<close> reports it unhealthy with response time 0 and the error
  \<^verbatim>\<open>API key not configured or invalid\<close>. It makes no network call: the counters of
  both kinds of call are unchanged and the only effect added is the line of
  \<^verbatim>\<open>logProviderHealth\<close>.
\<close>

theorem checkProvider_unavailable:
  assumes "\<not> checkProviderAvailability env p"
  shows "isHealthy (fst (checkProvider env clock probe p s)) = False \<and>
         HealthCheckResult.responseTimeMs (fst (checkProvider env clock probe p s)) = 0 \<and>
         error (fst (checkProvider env clock probe p s)) = Some ''API key not configured or invalid'' \<and>
         HealthCheckResult.provider (fst (checkProvider env clock probe p s)) = name p \<and>
         probes (snd (checkProvider env clock probe p s)) = probes s \<and>
         fetches (snd (checkProvider env clock probe p s)) = fetches s \<and>
         trace (snd (checkProvider env clock probe p s)) =
           trace s @ [HealthLogged (name p) False 0 (clock (ticks s + 2))] \<and>
         filter isNetworkCall (trace (snd (checkProvider env clock probe p s))) =
           filter isNetworkCall (trace s)"
  by (simp add: unavailable_probe_world [OF assms])

text \<open>The primary text provider with a placeholder key, although the network would answer 200.\<close>

theorem checkProvider_unavailable_witness:
  "\<not> checkProviderAvailability [''OPENAI_API_KEY'' \<mapsto> ''sk-placeholder-key''] OpenAI \<and>
   isHealthy (fst (checkProvider [''OPENAI_API_KEY'' \<mapsto> ''sk-placeholder-key''] int
      (\<lambda>k url h. Status 200) OpenAI initialWorld)) = False \<and>
   HealthCheckResult.responseTimeMs (fst (checkProvider [''OPENAI_API_KEY'' \<mapsto> ''sk-placeholder-key'']
      int (\<lambda>k url h. Status 200) OpenAI initialWorld)) = 0 \<and>
   error (fst (checkProvider [''OPENAI_API_KEY'' \<mapsto> ''sk-placeholder-key''] int
      (\<lambda>k url h. Status 200) OpenAI initialWorld)) = Some ''API key not configured or invalid'' \<and>
   trace (snd (checkProvider [''OPENAI_API_KEY'' \<mapsto> ''sk-placeholder-key''] int
      (\<lambda>k url h. Status 200) OpenAI initialWorld)) = [HealthLogged ''OpenAI'' False 0 2]"
proof -
  have h: "\<not> checkProviderAvailability [''OPENAI_API_KEY'' \<mapsto> ''sk-placeholder-key''] OpenAI"
    by (simp add: checkProviderAvailability_def keyUsable_def OpenAI_def)
  show ?thesis
    using h checkProvider_unavailable [OF h, of int "\<lambda>k url h. Status 200" initialWorld]
    by (simp add: initialWorld_def OpenAI_def)
qed

text \<open>
  Claim C9 as stated fails on the text of the error: with no key in the environment the
  probe of the primary text provider does not report \<^verbatim>\<open>credential not configured\<close>.
\<close>

theorem checkProvider_message_counterexample:
  "error (fst (checkProvider Map.empty int (\<lambda>k url h. Status 200) OpenAI initialWorld))
     \<noteq> Some ''credential not configured''"
  by (simp add: checkProvider_def checkProviderAvailability_def keyUsable_def OpenAI_def
      now_def initialWorld_def logProviderHealth_def emit_def Let_def)

section \<open>Windowed statistics\<close>

text \<open>
  Without a window, and with an infinite one, every event with a positive timestamp is
  kept (\<^verbatim>\<open>log\<close> stamps an event with the clock's reading, a positive count of
  milliseconds); and the statistics of the window 0 are those of no window.
\<close>

lemma no_window_whole_buffer:
  assumes "\<forall>e \<in> set buffer. 0 < TelemetryEvent.timestamp e"
  shows "relevantEvents current None buffer = buffer"
    and "relevantEvents current (Some Infinity) buffer = buffer"
  using assms by (simp_all add: relevantEvents_def cutoffTime_def laterThan_def)

lemma zero_window_is_no_window:
  "getTelemetryStats current (Some (Num 0)) buffer = getTelemetryStats current None buffer"
  by (simp add: getTelemetryStats_def relevantEvents_def cutoffTime_def)

lemma positive_window_at_now_is_empty:
  assumes "\<forall>e \<in> set buffer. TelemetryEvent.timestamp e + w \<le> current"
  shows "w \<noteq> 0 \<Longrightarrow> getTelemetryStats current (Some (Num w)) buffer = []"
proof -
  assume "w \<noteq> 0"
  then have "relevantEvents current (Some (Num w)) buffer = []"
    using assms by (auto simp: relevantEvents_def cutoffTime_def laterThan_def filter_empty_conv)
  then show ?thesis by (simp add: getTelemetryStats_def)
qed

text \<open>
  Claim C1, on the code. With the window 0 the statistics are not empty: \<^verbatim>\<open>timeWindow\<close>
  is tested for truthiness, so 0 is taken as no window and the cutoff is 0, not the
  current time. Here the buffer holds one event, stored half a second before the call.
\<close>

theorem zero_window_not_empty:
  "getTelemetryStats 1700000000500 (Some (Num 0))
     [\<lparr>Event.provider = ''OpenAI'', status = Success, Event.responseTimeMs = 120,
       tokenUsage = Some 42, errorMessage = None, TelemetryEvent.timestamp = 1700000000000,
       functionName = ''generate-story''\<rparr>]
   = [\<lparr>ProviderStats.provider = ''OpenAI'', totalRequests = 1, successfulRequests = 1,
       failedRequests = 0, fallbackRequests = 0, retryRequests = 0, avgResponseTime = 120,
       totalTokens = 42, successRate = 100\<rparr>]"
  by (simp add: getTelemetryStats_def relevantEvents_def cutoffTime_def laterThan_def
      providerStats_def countStatus_def mathRound_def Let_def floor_eq_iff)

section \<open>The retry loop\<close>

text \<open>What the primitive operations do to the world.\<close>

lemma fetchesOf_append [simp]: "fetchesOf (xs @ ys) = fetchesOf xs @ fetchesOf ys"
  by (simp add: fetchesOf_def)

lemma timeline_append [simp]: "timeline (xs @ ys) = timeline xs @ timeline ys"
  by (simp add: timeline_def)

lemma fetchesOf_simps [simp]:
  "fetchesOf [] = []"
  "fetchesOf (Fetched p r h # tr) = Fetched p r h # fetchesOf tr"
  "fetchesOf (Slept d # tr) = fetchesOf tr"
  "fetchesOf (Console e # tr) = fetchesOf tr"
  by (simp_all add: fetchesOf_def)

lemma timeline_simps [simp]:
  "timeline [] = []"
  "timeline (Fetched p r h # tr) = Fetched p r h # timeline tr"
  "timeline (Slept d # tr) = Slept d # timeline tr"
  "timeline (Console e # tr) = timeline tr"
  by (simp_all add: timeline_def)

lemma logEvent_effect:
  "logEvent clock fn ev s =
     s\<lparr>ticks := Suc (ticks s),
       telemetryBuffer :=
         (if MAX_BUFFER_SIZE \<le> length (telemetryBuffer s)
          then tl (telemetryBuffer s @ [storedEvent clock (ticks s) (fn, ev)])
          else telemetryBuffer s @ [storedEvent clock (ticks s) (fn, ev)]),
       trace := trace s @ [Console (storedEvent clock (ticks s) (fn, ev))]\<rparr>"
  by (simp add: logEvent_def now_def emit_def storedEvent_def Let_def)

lemma logged_sel [simp]:
  "trace (logged e s) = trace s @ [Console e]"
  "fetches (logged e s) = fetches s"
  "ticks (logged e s) = ticks s + 2"
  by (simp_all add: logged_def)

lemma success_effect:
  "snd (success clock timer tokens s) = logged (timerEvent clock timer Success tokens None s) s"
  by (simp add: success_def now_def logEvent_effect storedEvent_def timerEvent_def logged_def Let_def)

lemma failure_effect:
  "snd (failure clock timer err s) = logged (timerEvent clock timer Failure None (Some err) s) s"
  by (simp add: failure_def now_def logEvent_effect storedEvent_def timerEvent_def logged_def Let_def)

lemma fallback_effect:
  "snd (fallback clock timer err s) = logged (timerEvent clock timer Fallback None (Some err) s) s"
  by (simp add: fallback_def now_def logEvent_effect storedEvent_def timerEvent_def logged_def Let_def)

lemma retry_effect:
  "retry clock timer attempt s =
     logged (timerEvent clock timer Retry None (Some (''Retry attempt '' @ showInt attempt)) s) s"
  by (simp add: retry_def now_def logEvent_effect storedEvent_def timerEvent_def logged_def Let_def)

lemma sleep_sel [simp]:
  "trace (sleep d s) = trace s @ [Slept d]"
  "fetches (sleep d s) = fetches s"
  "ticks (sleep d s) = ticks s"
  by (simp_all add: sleep_def emit_def)

lemma makeHttpRequest_sel [simp]:
  "fst (makeHttpRequest net p r h s) = net (fetches s) p r h"
  "trace (snd (makeHttpRequest net p r h s)) = trace s @ [Fetched p r h]"
  "fetches (snd (makeHttpRequest net p r h s)) = Suc (fetches s)"
  "ticks (snd (makeHttpRequest net p r h s)) = ticks s"
  by (simp_all add: makeHttpRequest_def emit_def)

text \<open>
  The loop started at the iteration \<open>attempt\<close> only adds to the trace. It makes \<open>n\<close>
  calls, one in each of the iterations \<open>attempt, \<dots>, attempt + n - 1\<close>, each after
  the backoff sleep of its iteration when that is a retry; it makes at least one call
  when it is entered within the retry budget, and never goes beyond it.
\<close>

lemma attemptLoop_timeline:
  "\<exists>X n. trace (snd (attemptLoop clock net client p r h timer attempt le s)) = trace s @ X
     \<and> fetches (snd (attemptLoop clock net client p r h timer attempt le s)) = fetches s + n
     \<and> timeline X = concat (map (iteration (retryConfig client) p r h) [attempt .. attempt + int n - 1])
     \<and> (attempt \<le> maxRetries (retryConfig client) \<longrightarrow> 1 \<le> n)
     \<and> attempt + int n \<le> max attempt (maxRetries (retryConfig client) + 1)"
proof (induction clock net client p r h timer attempt le s rule: attemptLoop.induct)
  case (1 clock net client p request authHeader timer attempt lastError s)
  let ?cfg = "retryConfig client"
  show ?case
  proof (cases "attempt \<le> maxRetries ?cfg")
    case False
    have after: "attemptLoop clock net client p request authHeader timer attempt lastError s =
      (case lastError of
           None \<Rightarrow> (Inl (Error ''Unexpected error in retry logic''),
                     snd (failure clock timer ''Unknown error'' s))
         | Some err \<Rightarrow>
             (Inl err,
              snd (failure clock timer
                     (if message err = [] then ''Unknown error'' else message err) s)))"
      using False by (subst attemptLoop.simps) simp
    obtain e where "snd (attemptLoop clock net client p request authHeader timer attempt lastError s)
        = logged e s"
      unfolding after by (cases lastError) (simp_all add: failure_effect)
    then show ?thesis
      using False by (intro exI [of _ "[Console e]"] exI [of _ 0]) simp
  next
    case True
    define s1 where "s1 = (if attempt > 0
                   then sleep (backoffDelay ?cfg attempt) (retry clock timer attempt s)
                   else s)"
    define pre where "pre = (if attempt > 0
       then [Console (timerEvent clock timer Retry None (Some (''Retry attempt '' @ showInt attempt)) s),
             Slept (backoffDelay ?cfg attempt)] else [])"
    define out where "out = fst (makeHttpRequest net p request authHeader s1)"
    define s2 where "s2 = snd (makeHttpRequest net p request authHeader s1)"
    have s1: "trace s1 = trace s @ pre" "fetches s1 = fetches s"
      by (simp_all add: s1_def pre_def retry_effect)
    have s2: "trace s2 = trace s @ pre @ [Fetched p request authHeader]" "fetches s2 = Suc (fetches s)"
      by (simp_all add: s2_def s1)
    have pre: "timeline (pre @ [Fetched p request authHeader]) = iteration ?cfg p request authHeader attempt"
      by (simp add: pre_def iteration_def)
    have unfold: "attemptLoop clock net client p request authHeader timer attempt lastError s =
      (case readResponse out of
              Inr data \<Rightarrow> (Inr data, snd (success clock timer (usage data) s2))
            | Inl err \<Rightarrow>
                (if \<not> isRetryableError err \<or> attempt = maxRetries ?cfg
                 then (Inl err, snd (failure clock timer (message err) s2))
                 else attemptLoop clock net client p request authHeader timer
                        (attempt + 1) (Some err) s2))"
      using True
      by (subst attemptLoop.simps) (simp only: True if_True Let_def split_beta s1_def out_def s2_def)
    show ?thesis
    proof (cases "readResponse out")
      case (Inr data)
      show ?thesis
        unfolding unfold Inr
        apply (rule exI [of _ "pre @ [Fetched p request authHeader] @ [Console (timerEvent clock timer Success (usage data) None s2)]"])
        apply (rule exI [of _ 1])
        using True pre
        apply (simp add: success_effect s2)
        done
    next
      case (Inl err)
      show ?thesis
      proof (cases "\<not> isRetryableError err \<or> attempt = maxRetries ?cfg")
        case stop: True
        show ?thesis
          unfolding unfold Inl
          apply (rule exI [of _ "pre @ [Fetched p request authHeader] @ [Console (timerEvent clock timer Failure None (Some (message err)) s2)]"])
          apply (rule exI [of _ 1])
          using True pre stop
          apply (simp add: failure_effect s2)
          done
      next
        case continue: False
        have "(out, s2) = makeHttpRequest net p request authHeader s1"
          by (simp only: out_def s2_def prod.collapse)
        from "1.IH" [OF True s1_def refl this Inl continue]
        obtain X n where X:
          "trace (snd (attemptLoop clock net client p request authHeader timer (attempt + 1) (Some err) s2)) = trace s2 @ X"
          "fetches (snd (attemptLoop clock net client p request authHeader timer (attempt + 1) (Some err) s2)) = fetches s2 + n"
          "timeline X = concat (map (iteration ?cfg p request authHeader) [attempt + 1 .. attempt + 1 + int n - 1])"
          "attempt + 1 + int n \<le> max (attempt + 1) (maxRetries ?cfg + 1)"
          by blast
        have tl: "timeline ((pre @ [Fetched p request authHeader]) @ X) =
                concat (map (iteration ?cfg p request authHeader) [attempt .. attempt + int (Suc n) - 1])"
        proof -
          have "[attempt .. attempt + int n] = attempt # [attempt + 1 .. attempt + int n]"
            by (simp add: upto_rec1)
          then show ?thesis
            using X(3) by (simp add: pre [symmetric])
        qed
        have tr: "trace (snd (attemptLoop clock net client p request authHeader timer (attempt + 1) (Some err) s2))
                = trace s @ (pre @ [Fetched p request authHeader]) @ X"
          by (simp add: X(1) s2)
        have fe: "fetches (snd (attemptLoop clock net client p request authHeader timer (attempt + 1) (Some err) s2))
                = fetches s + Suc n"
          by (simp add: X(2) s2)
        have bound: "attempt + int (Suc n) \<le> max attempt (maxRetries ?cfg + 1)"
          using X(4) True continue by simp
        have eq: "attemptLoop clock net client p request authHeader timer attempt lastError s =
             attemptLoop clock net client p request authHeader timer (attempt + 1) (Some err) s2"
          unfolding unfold Inl using continue by simp
        show ?thesis
          unfolding eq using tr fe tl bound by (intro exI [of _ "(pre @ [Fetched p request authHeader]) @ X"] exI [of _ "Suc n"]) simp
      qed
    qed
  qed
qed

lemma isFetched_isTimed: "isFetched a \<Longrightarrow> isTimed a"
  by (cases a) simp_all

lemma fetchesOf_timeline: "fetchesOf (timeline tr) = fetchesOf tr"
proof -
  have "filter isFetched (filter isTimed tr) = filter isFetched tr"
    by (induction tr) (auto dest: isFetched_isTimed)
  then show ?thesis by (simp add: fetchesOf_def timeline_def)
qed

lemma fetchesOf_iterations:
  "fetchesOf (concat (map (iteration cfg p r h) ks)) = replicate (length ks) (Fetched p r h)"
  by (induction ks) (simp_all add: iteration_def)

lemma newTimer_effect:
  "newTimer clock prov fn s =
     (\<lparr>startTime = clock (ticks s), PerformanceTimer.provider = prov, telemetry = fn\<rparr>,
      s\<lparr>ticks := Suc (ticks s)\<rparr>)"
  by (simp add: newTimer_def now_def)

lemma makeRequest_unfold:
  "makeRequest clock net client p r h s =
     attemptLoop clock net client p r h
       \<lparr>startTime = clock (ticks s), PerformanceTimer.provider = name p,
        telemetry = clientTelemetry client\<rparr> 0 None (s\<lparr>ticks := Suc (ticks s)\<rparr>)"
  by (simp add: makeRequest_def newTimer_effect)

lemma makeRequest_timeline:
  "\<exists>X n. trace (snd (makeRequest clock net client p r h s)) = trace s @ X
     \<and> fetches (snd (makeRequest clock net client p r h s)) = fetches s + n
     \<and> timeline X = concat (map (iteration (retryConfig client) p r h) [0 .. int n - 1])
     \<and> (0 \<le> maxRetries (retryConfig client) \<longrightarrow> 1 \<le> n)
     \<and> int n \<le> max 0 (maxRetries (retryConfig client) + 1)"
  using attemptLoop_timeline [of clock net client p r h
      "\<lparr>startTime = clock (ticks s), PerformanceTimer.provider = name p,
        telemetry = clientTelemetry client\<rparr>" 0 None "s\<lparr>ticks := Suc (ticks s)\<rparr>"]
  by (simp add: makeRequest_unfold)




lemmas example_defs =
  exampleRequest_def exampleResponse_def exampleClient_def patientClient_def flakyNet_def
  healthyNet_def primaryDownNet_def allDownNet_def DEFAULT_RETRY_CONFIG_def OpenAI_def OVH_def
  initialWorld_def

lemmas run_defs =
  makeRequest_def newTimer_def now_def attemptLoop.simps Let_def
  readResponse_def ok_def showInt_def digit_def isRetryableError_def
  toLowerCase_def lowerChar_def retry_effect success_effect failure_effect backoffDelay_def
  makeHttpRequest_def emit_def sleep_def logged_def timerEvent_def



text \<open>
  Claim C5. When the retry budget is not negative and the first attempt of
  \<^verbatim>\<open>makeRequest\<close> ends in an error that is not retryable, the call fails with that
  error after exactly one network call; the only telemetry event logged is one
  \<^verbatim>\<open>failure\<close> event carrying the error's message (so no \<^verbatim>\<open>retry\<close> event), and it is
  pushed on the buffer.
\<close>

theorem fatal_error_single_attempt:
  assumes "0 \<le> maxRetries (retryConfig client)"
    and "readResponse (net (fetches s) p request authHeader) = Inl err"
    and "\<not> isRetryableError err"
  shows "fst (makeRequest clock net client p request authHeader s) = Inl err \<and>
         fetches (snd (makeRequest clock net client p request authHeader s)) = Suc (fetches s) \<and>
         trace (snd (makeRequest clock net client p request authHeader s)) =
           trace s @ [Fetched p request authHeader,
             Console \<lparr>Event.provider = name p, status = Failure,
               Event.responseTimeMs = clock (Suc (ticks s)) - clock (ticks s), tokenUsage = None,
               errorMessage = Some (message err), TelemetryEvent.timestamp = clock (ticks s + 2),
               functionName = clientTelemetry client\<rparr>] \<and>
         telemetryBuffer (snd (makeRequest clock net client p request authHeader s)) =
           (if MAX_BUFFER_SIZE \<le> length (telemetryBuffer s) then tl else id)
             (telemetryBuffer s @
               [\<lparr>Event.provider = name p, status = Failure,
                 Event.responseTimeMs = clock (Suc (ticks s)) - clock (ticks s), tokenUsage = None,
                 errorMessage = Some (message err), TelemetryEvent.timestamp = clock (ticks s + 2),
                 functionName = clientTelemetry client\<rparr>])"
  using assms
  by (simp add: makeRequest_unfold attemptLoop.simps [of _ _ _ _ _ _ _ 0] Let_def split_beta
      failure_effect logged_def timerEvent_def makeHttpRequest_def emit_def)

text \<open>The primary text provider answers 401 under the default retry policy.\<close>

theorem fatal_error_single_attempt_witness:
  "0 \<le> maxRetries (retryConfig exampleClient) \<and>
   readResponse (primaryDownNet (fetches initialWorld) OpenAI exampleRequest ''Bearer sk-1'')
     = Inl (Error ''HTTP 401: Unauthorized'') \<and>
   \<not> isRetryableError (Error ''HTTP 401: Unauthorized'') \<and>
   fst (makeRequest int primaryDownNet exampleClient OpenAI exampleRequest ''Bearer sk-1''
          initialWorld) = Inl (Error ''HTTP 401: Unauthorized'') \<and>
   fetches (snd (makeRequest int primaryDownNet exampleClient OpenAI exampleRequest ''Bearer sk-1''
          initialWorld)) = 1 \<and>
   trace (snd (makeRequest int primaryDownNet exampleClient OpenAI exampleRequest ''Bearer sk-1''
          initialWorld)) =
     [Fetched OpenAI exampleRequest ''Bearer sk-1'',
      Console \<lparr>Event.provider = ''OpenAI'', status = Failure, Event.responseTimeMs = 1,
        tokenUsage = None, errorMessage = Some ''HTTP 401: Unauthorized'',
        TelemetryEvent.timestamp = 2, functionName = ''generate-story''\<rparr>]"
proof -
  have a: "0 \<le> maxRetries (retryConfig exampleClient)"
    by (simp add: exampleClient_def DEFAULT_RETRY_CONFIG_def)
  have b: "readResponse (primaryDownNet (fetches initialWorld) OpenAI exampleRequest ''Bearer sk-1'')
     = Inl (Error ''HTTP 401: Unauthorized'')"
    by (simp add: readResponse_def primaryDownNet_def OpenAI_def ok_def showInt_def digit_def)
  have c: "\<not> isRetryableError (Error ''HTTP 401: Unauthorized'')"
    by (simp add: isRetryableError_def toLowerCase_def lowerChar_def)
  show ?thesis
    using a b c fatal_error_single_attempt [where clock = int and net = primaryDownNet
        and client = exampleClient and p = OpenAI and request = exampleRequest
        and authHeader = "''Bearer sk-1''" and s = initialWorld
        and err = "Error ''HTTP 401: Unauthorized''", OF a b c]
    by (simp add: initialWorld_def exampleClient_def OpenAI_def)
qed

section \<open>Falling back to the second provider\<close>

lemma logFallbackUsage_effect:
  "logFallbackUsage clock client primaryProvider primaryError s =
     logged (timerEvent clock
               \<lparr>startTime = clock (ticks s), PerformanceTimer.provider = name primaryProvider,
                telemetry = clientTelemetry client\<rparr>
               Fallback None (Some (message primaryError)) (s\<lparr>ticks := Suc (ticks s)\<rparr>))
            (s\<lparr>ticks := Suc (ticks s)\<rparr>)"
  by (simp add: logFallbackUsage_def newTimer_effect fallback_effect)

lemma makeRequest_calls:
  assumes "0 \<le> maxRetries (retryConfig client)"
  shows "\<exists>X. trace (snd (makeRequest clock net client p r h s)) = trace s @ X
     \<and> fetches s < fetches (snd (makeRequest clock net client p r h s))
     \<and> fetchesOf X =
         replicate (fetches (snd (makeRequest clock net client p r h s)) - fetches s) (Fetched p r h)"
proof -
  obtain X n where X:
    "trace (snd (makeRequest clock net client p r h s)) = trace s @ X"
    "fetches (snd (makeRequest clock net client p r h s)) = fetches s + n"
    "timeline X = concat (map (iteration (retryConfig client) p r h) [0 .. int n - 1])"
    "1 \<le> n"
    using makeRequest_timeline [of clock net client p r h s] assms by blast
  have "fetchesOf X = fetchesOf (timeline X)"
    by (simp add: fetchesOf_timeline)
  also have "\<dots> = replicate n (Fetched p r h)"
    unfolding X(3) fetchesOf_iterations by simp
  finally show ?thesis
    using X by (intro exI [of _ X]) simp
qed

text \<open>
  Claim C4, as amended: the claim holds when both header callbacks return a header.
  Let both header callbacks return, let the retry budget be not negative,
  and compare \<^verbatim>\<open>makeRequestWithFallback\<close> with the run of \<^verbatim>\<open>makeRequest\<close> on the primary
  that it starts with. Network calls are made after that run exactly when it failed,
  and every such call goes to the fallback provider, with the request adapted for it and
  its header. When the primary's run succeeds, the result is its response with the
  primary as \<^verbatim>\<open>usedProvider\<close>, and the world is the one that run left. When it fails,
  the result is that of the fallback's run: its response with the fallback as
  \<^verbatim>\<open>usedProvider\<close>, or the error naming both failures. So a successful result names
  the fallback exactly when the primary failed.
\<close>

theorem fallback_iff_primary_fails:
  fixes clock :: clock and net :: network and client :: AIClient
    and primaryProvider fallbackProvider :: AIProvider and request :: AIRequest
    and h1 h2 :: string and s :: world
  defines "P \<equiv> makeRequest clock net client primaryProvider request h1 s"
    and "M \<equiv> makeRequestWithFallback clock net client primaryProvider fallbackProvider request
                (Inr h1) (Inr h2) s"
  assumes "0 \<le> maxRetries (retryConfig client)"
  shows "(fetches (snd P) < fetches (snd M)) = isl (fst P) \<and>
         fetchesOf (drop (length (trace (snd P))) (trace (snd M))) =
           replicate (fetches (snd M) - fetches (snd P))
             (Fetched fallbackProvider (adaptRequestForProvider request fallbackProvider) h2) \<and>
         (\<forall>response. fst P = Inr response \<longrightarrow> M = (Inr (response, primaryProvider), snd P)) \<and>
         (\<forall>primaryError. fst P = Inl primaryError \<longrightarrow>
            fst M =
              (case fst (makeRequest clock net client fallbackProvider
                           (adaptRequestForProvider request fallbackProvider) h2
                           (logFallbackUsage clock client primaryProvider primaryError (snd P))) of
                 Inr response \<Rightarrow> Inr (response, fallbackProvider)
               | Inl fallbackError \<Rightarrow>
                   Inl (bothFailed primaryProvider primaryError fallbackProvider fallbackError))) \<and>
         (\<forall>response used. fst M = Inr (response, used) \<longrightarrow>
            used = (if isl (fst P) then fallbackProvider else primaryProvider))"
proof (cases "fst P")
  case (Inr response)
  then obtain s1 where P: "makeRequest clock net client primaryProvider request h1 s = (Inr response, s1)"
    unfolding P_def by (cases "makeRequest clock net client primaryProvider request h1 s") simp
  have M: "M = (Inr (response, primaryProvider), snd P)"
    unfolding M_def P_def makeRequestWithFallback_def tryRequest_def
    by (simp add: P)
  show ?thesis
    using Inr by (simp add: M)
next
  case (Inl primaryError)
  let ?req = "adaptRequestForProvider request fallbackProvider"
  let ?s2 = "logFallbackUsage clock client primaryProvider primaryError (snd P)"
  let ?F = "makeRequest clock net client fallbackProvider ?req h2 ?s2"
  obtain s1 where P: "makeRequest clock net client primaryProvider request h1 s = (Inl primaryError, s1)"
    using Inl unfolding P_def by (cases "makeRequest clock net client primaryProvider request h1 s") simp
  have M: "M = (case fst ?F of
                 Inr response \<Rightarrow> Inr (response, fallbackProvider)
               | Inl fallbackError \<Rightarrow>
                   Inl (bothFailed primaryProvider primaryError fallbackProvider fallbackError),
                snd ?F)"
    unfolding M_def P_def makeRequestWithFallback_def tryRequest_def
    by (simp add: P split_beta Let_def split: sum.splits)
  have s2: "trace ?s2 = trace (snd P) @ [Console (timerEvent clock
               \<lparr>startTime = clock (ticks (snd P)), PerformanceTimer.provider = name primaryProvider,
                telemetry = clientTelemetry client\<rparr>
               Fallback None (Some (message primaryError)) ((snd P)\<lparr>ticks := Suc (ticks (snd P))\<rparr>))]"
       "fetches ?s2 = fetches (snd P)"
    by (simp_all add: logFallbackUsage_effect)
  obtain X where X: "trace (snd ?F) = trace ?s2 @ X" "fetches ?s2 < fetches (snd ?F)"
    "fetchesOf X = replicate (fetches (snd ?F) - fetches ?s2) (Fetched fallbackProvider ?req h2)"
    using makeRequest_calls [OF assms(3), of clock net fallbackProvider ?req h2 ?s2] by blast
  have one: "(fetches (snd P) < fetches (snd M)) = isl (fst P)"
    using X(2) Inl by (simp add: M s2)
  have two: "fetchesOf (drop (length (trace (snd P))) (trace (snd M))) =
           replicate (fetches (snd M) - fetches (snd P)) (Fetched fallbackProvider ?req h2)"
    using X(3) by (simp add: M X(1) s2)
  have four: "fst M = (case fst ?F of
                 Inr response \<Rightarrow> Inr (response, fallbackProvider)
               | Inl fallbackError \<Rightarrow>
                   Inl (bothFailed primaryProvider primaryError fallbackProvider fallbackError))"
    by (simp add: M)
  have three: "\<forall>response. fst P = Inr response \<longrightarrow> M = (Inr (response, primaryProvider), snd P)"
    by (simp add: Inl)
  have four': "\<forall>primaryError. fst P = Inl primaryError \<longrightarrow>
            fst M =
              (case fst (makeRequest clock net client fallbackProvider ?req h2
                           (logFallbackUsage clock client primaryProvider primaryError (snd P))) of
                 Inr response \<Rightarrow> Inr (response, fallbackProvider)
               | Inl fallbackError \<Rightarrow>
                   Inl (bothFailed primaryProvider primaryError fallbackProvider fallbackError))"
    using four by (simp add: Inl)
  have five: "\<forall>response used. fst M = Inr (response, used) \<longrightarrow>
            used = (if isl (fst P) then fallbackProvider else primaryProvider)"
  proof (intro allI impI)
    fix response used
    assume "fst M = Inr (response, used)"
    then have "used = fallbackProvider"
      unfolding four by (cases "fst ?F") simp_all
    then show "used = (if isl (fst P) then fallbackProvider else primaryProvider)"
      by (simp add: Inl)
  qed
  show ?thesis
    by (intro conjI one two three four' five)
qed

text \<open>
  With the primary answering 401 the fallback is called and is the provider used; on a
  healthy network the primary is used and nothing happens after its run.
\<close>

theorem fallback_iff_primary_fails_witness:
  "0 \<le> maxRetries (retryConfig exampleClient) \<and>
   fst (makeRequest int primaryDownNet exampleClient OpenAI exampleRequest ''Bearer sk-1''
          initialWorld) = Inl (Error ''HTTP 401: Unauthorized'') \<and>
   fetches (snd (makeRequest int primaryDownNet exampleClient OpenAI exampleRequest ''Bearer sk-1''
                   initialWorld))
     < fetches (snd (makeRequestWithFallback int primaryDownNet exampleClient OpenAI OVH
                       exampleRequest (Inr ''Bearer sk-1'') (Inr ''Bearer ovh-1'') initialWorld)) \<and>
   fst (makeRequestWithFallback int primaryDownNet exampleClient OpenAI OVH exampleRequest
          (Inr ''Bearer sk-1'') (Inr ''Bearer ovh-1'') initialWorld)
     = Inr (exampleResponse, OVH) \<and>
   fst (makeRequest int healthyNet exampleClient OpenAI exampleRequest ''Bearer sk-1''
          initialWorld) = Inr exampleResponse \<and>
   makeRequestWithFallback int healthyNet exampleClient OpenAI OVH exampleRequest
       (Inr ''Bearer sk-1'') (Inr ''Bearer ovh-1'') initialWorld
     = (Inr (exampleResponse, OpenAI),
        snd (makeRequest int healthyNet exampleClient OpenAI exampleRequest ''Bearer sk-1''
               initialWorld))"
proof -
  have a: "0 \<le> maxRetries (retryConfig exampleClient)"
    by (simp add: exampleClient_def DEFAULT_RETRY_CONFIG_def)
  note down = fallback_iff_primary_fails [where clock = int and net = primaryDownNet
      and client = exampleClient and primaryProvider = OpenAI and fallbackProvider = OVH
      and request = exampleRequest and ?h1.0 = "''Bearer sk-1''" and ?h2.0 = "''Bearer ovh-1''"
      and s = initialWorld, OF a]
  note up = fallback_iff_primary_fails [where clock = int and net = healthyNet
      and client = exampleClient and primaryProvider = OpenAI and fallbackProvider = OVH
      and request = exampleRequest and ?h1.0 = "''Bearer sk-1''" and ?h2.0 = "''Bearer ovh-1''"
      and s = initialWorld, OF a]
  have p1: "fst (makeRequest int primaryDownNet exampleClient OpenAI exampleRequest ''Bearer sk-1''
          initialWorld) = Inl (Error ''HTTP 401: Unauthorized'')"
    by (simp add: run_defs example_defs)
  have f1: "fst (makeRequest int primaryDownNet exampleClient OVH
                  (adaptRequestForProvider exampleRequest OVH) ''Bearer ovh-1''
                  (logFallbackUsage int exampleClient OpenAI (Error ''HTTP 401: Unauthorized'')
                     (snd (makeRequest int primaryDownNet exampleClient OpenAI exampleRequest
                             ''Bearer sk-1'' initialWorld))))
            = Inr exampleResponse"
    by (simp add: run_defs example_defs)
  have p2: "fst (makeRequest int healthyNet exampleClient OpenAI exampleRequest ''Bearer sk-1''
          initialWorld) = Inr exampleResponse"
    by (simp add: run_defs example_defs)
  from down p1 have more: "fetches (snd (makeRequest int primaryDownNet exampleClient OpenAI exampleRequest ''Bearer sk-1''
                   initialWorld))
     < fetches (snd (makeRequestWithFallback int primaryDownNet exampleClient OpenAI OVH
                       exampleRequest (Inr ''Bearer sk-1'') (Inr ''Bearer ovh-1'') initialWorld))"
    by simp
  from down p1 f1 have used: "fst (makeRequestWithFallback int primaryDownNet exampleClient OpenAI OVH exampleRequest
          (Inr ''Bearer sk-1'') (Inr ''Bearer ovh-1'') initialWorld)
     = Inr (exampleResponse, OVH)"
    by simp
  from up p2 have same: "makeRequestWithFallback int healthyNet exampleClient OpenAI OVH exampleRequest
       (Inr ''Bearer sk-1'') (Inr ''Bearer ovh-1'') initialWorld
     = (Inr (exampleResponse, OpenAI),
        snd (makeRequest int healthyNet exampleClient OpenAI exampleRequest ''Bearer sk-1''
               initialWorld))"
    by simp
  from a p1 more used p2 same show ?thesis by (intro conjI)
qed

text \<open>
  Claim C4 as stated fails when a header callback throws, since each callback is called
  inside its \<^verbatim>\<open>try\<close> block. Here the primary is a provider that \<^verbatim>\<open>getAuthHeader\<close> does
  not know and the callbacks are \<^verbatim>\<open>getAuthHeader\<close> on either provider, on a healthy
  network. The primary's callback throws, so \<^verbatim>\<open>makeRequest\<close> is not entered for the
  primary: its try leaves the world as it was, with no attempt and no \<^verbatim>\<open>failure\<close>
  event. Yet the fallback is called, and it is the provider used.
\<close>

theorem fallback_without_primary_attempt_counterexample:
  "tryRequest int healthyNet exampleClient unlistedProvider exampleRequest
       (getAuthHeader exampleEnv unlistedProvider) initialWorld
     = (Inl (Error ''Unknown provider: Mistral''), initialWorld) \<and>
   fst (makeRequestWithFallback int healthyNet exampleClient unlistedProvider OVH exampleRequest
          (getAuthHeader exampleEnv unlistedProvider) (getAuthHeader exampleEnv OVH) initialWorld)
     = Inr (exampleResponse, OVH) \<and>
   trace (snd (makeRequestWithFallback int healthyNet exampleClient unlistedProvider OVH
                 exampleRequest (getAuthHeader exampleEnv unlistedProvider)
                 (getAuthHeader exampleEnv OVH) initialWorld))
     = [Console \<lparr>Event.provider = ''Mistral'', status = Fallback, Event.responseTimeMs = 1,
          tokenUsage = None, errorMessage = Some ''Unknown provider: Mistral'',
          TelemetryEvent.timestamp = 2, functionName = ''generate-story''\<rparr>,
        Fetched OVH (adaptRequestForProvider exampleRequest OVH) ''Bearer ovh-1'',
        Console \<lparr>Event.provider = ''OVH'', status = Success, Event.responseTimeMs = 1,
          tokenUsage = Some 42, errorMessage = None,
          TelemetryEvent.timestamp = 5, functionName = ''generate-story''\<rparr>]"
  by (simp add: makeRequestWithFallback_def tryRequest_def getAuthHeader_def showKey_def
      exampleEnv_def unlistedProvider_def logFallbackUsage_effect run_defs example_defs)

text \<open>
  In the other direction: the primary answers 401, so its run ends in failure, and the
  fallback's callback throws. No call goes to the fallback; the error names both
  failures.
\<close>

lemma fallback_header_throws:
  "fst (makeRequest int primaryDownNet exampleClient OpenAI exampleRequest ''Bearer undefined''
          initialWorld) = Inl (Error ''HTTP 401: Unauthorized'') \<and>
   fst (makeRequestWithFallback int primaryDownNet exampleClient OpenAI unlistedProvider
          exampleRequest (getAuthHeader exampleEnv OpenAI)
          (getAuthHeader exampleEnv unlistedProvider) initialWorld)
     = Inl (Error (''Both AI providers failed. Primary (OpenAI): HTTP 401: Unauthorized. ''
                   @ ''Fallback (Mistral): Unknown provider: Mistral'')) \<and>
   fetches (snd (makeRequestWithFallback int primaryDownNet exampleClient OpenAI unlistedProvider
          exampleRequest (getAuthHeader exampleEnv OpenAI)
          (getAuthHeader exampleEnv unlistedProvider) initialWorld))
     = fetches (snd (makeRequest int primaryDownNet exampleClient OpenAI exampleRequest
          ''Bearer undefined'' initialWorld))"
  by (simp add: makeRequestWithFallback_def tryRequest_def getAuthHeader_def showKey_def
      exampleEnv_def unlistedProvider_def logFallbackUsage_effect bothFailed_def run_defs
      example_defs)

text \<open>
  Claim C8. When the primary's try fails with \<open>primaryError\<close> and the fallback's try,
  made after the fallback usage is logged, fails with \<open>fallbackError\<close>, then
  \<^verbatim>\<open>makeRequestWithFallback\<close> fails with an error whose message contains both messages
  unchanged, each after the name of its provider.
\<close>

theorem both_failures_preserved:
  assumes "fst (tryRequest clock net client primaryProvider request getPrimaryAuthHeader s)
             = Inl primaryError"
    and "fst (tryRequest clock net client fallbackProvider
           (adaptRequestForProvider request fallbackProvider) getFallbackAuthHeader
           (logFallbackUsage clock client primaryProvider primaryError
              (snd (tryRequest clock net client primaryProvider request getPrimaryAuthHeader s))))
             = Inl fallbackError"
  shows "fst (makeRequestWithFallback clock net client primaryProvider fallbackProvider request
             getPrimaryAuthHeader getFallbackAuthHeader s)
           = Inl (Error (''Both AI providers failed. Primary ('' @ name primaryProvider @ ''): ''
                   @ message primaryError
                   @ ''. Fallback ('' @ name fallbackProvider @ ''): ''
                   @ message fallbackError))"
  using assms
  by (simp add: makeRequestWithFallback_def bothFailed_def Let_def split_beta split: sum.splits)

text \<open>The primary answers 401 and the fallback 404.\<close>

theorem both_failures_preserved_witness:
  "fst (tryRequest int allDownNet exampleClient OpenAI exampleRequest (Inr ''Bearer sk-1'')
          initialWorld) = Inl (Error ''HTTP 401: Unauthorized'') \<and>
   fst (tryRequest int allDownNet exampleClient OVH (adaptRequestForProvider exampleRequest OVH)
          (Inr ''Bearer ovh-1'')
          (logFallbackUsage int exampleClient OpenAI (Error ''HTTP 401: Unauthorized'')
             (snd (tryRequest int allDownNet exampleClient OpenAI exampleRequest
                     (Inr ''Bearer sk-1'') initialWorld))))
     = Inl (Error ''HTTP 404: Not Found'') \<and>
   fst (makeRequestWithFallback int allDownNet exampleClient OpenAI OVH exampleRequest
          (Inr ''Bearer sk-1'') (Inr ''Bearer ovh-1'') initialWorld)
     = Inl (Error (''Both AI providers failed. Primary (OpenAI): HTTP 401: Unauthorized. ''
                   @ ''Fallback (OVH): HTTP 404: Not Found''))"
proof -
  have a: "fst (tryRequest int allDownNet exampleClient OpenAI exampleRequest (Inr ''Bearer sk-1'')
          initialWorld) = Inl (Error ''HTTP 401: Unauthorized'')"
    by (simp add: tryRequest_def run_defs example_defs)
  have b: "fst (tryRequest int allDownNet exampleClient OVH (adaptRequestForProvider exampleRequest OVH)
          (Inr ''Bearer ovh-1'')
          (logFallbackUsage int exampleClient OpenAI (Error ''HTTP 401: Unauthorized'')
             (snd (tryRequest int allDownNet exampleClient OpenAI exampleRequest
                     (Inr ''Bearer sk-1'') initialWorld))))
     = Inl (Error ''HTTP 404: Not Found'')"
    by (simp add: tryRequest_def run_defs example_defs)
  show ?thesis
    using a b both_failures_preserved [where clock = int and net = allDownNet
        and client = exampleClient and primaryProvider = OpenAI and fallbackProvider = OVH
        and request = exampleRequest and getPrimaryAuthHeader = "Inr ''Bearer sk-1''"
        and getFallbackAuthHeader = "Inr ''Bearer ovh-1''" and s = initialWorld
        and primaryError = "Error ''HTTP 401: Unauthorized''"
        and fallbackError = "Error ''HTTP 404: Not Found''", OF a b]
    by (simp add: OpenAI_def OVH_def)
qed

end
